theory Spec2Isabelle
  imports Main "HOL-Library.Sublist"
begin

section \<open>The relay daemon's startup: cmd/libp2p-relay-daemon/main.go\<close>

text \<open>
  The file has two functions, \<open>main\<close> and \<open>listenPprof\<close>. Both are sequences of calls into
  other packages (the daemon's own library package \<open>relaydaemon\<close>, go-libp2p, the DHT, the
  relay protocol, \<open>net/http\<close>). None of those packages is part of the file, so every call is
  a field of an environment record: the field gives what the call returns, and the model
  is the control flow of \<open>main\<close> around these results. What the program does is recorded as
  a trace of events (calls with their arguments, lines printed, goroutines started) and
  an outcome (a panic, a \<open>log.Fatal\<close>, or the final \<open>select {}\<close>).
\<close>

subsection \<open>Values\<close>

text \<open>
  A Go \<open>error\<close>. \<open>ErrServerClosed\<close> is \<open>http.ErrServerClosed\<close>, which \<open>listenPprof\<close>
  compares against; \<open>NilDereference\<close> is the run-time panic of a method called through a
  nil pointer.
\<close>

datatype error = ErrServerClosed | NilDereference | Error string

text \<open>Handles of the collaborating packages, opaque to \<open>main\<close>.\<close>

datatype privkey = PrivKey nat
datatype psk = PSK "nat list"
datatype reporter = Reporter nat
datatype rmgr = RMgr nat
datatype connmgr = BasicConnMgr nat
datatype host = Host nat
datatype dht = IpfsDHT nat
datatype acl = ACLFilter nat
datatype relay_resources = RelayResources nat
datatype acl_config = ACLConfig nat

text \<open>
  The configuration. The struct is declared in package \<open>relaydaemon\<close>; these are the fields
  that \<open>main\<close> reads, under the names it reads them by. Go's \<open>int\<close> and \<open>time.Duration\<close>
  are \<open>int\<close> here: \<open>main\<close> does no arithmetic on them.
\<close>

record network_config =
  ListenAddrs :: "string list"
  AnnounceAddrs :: "string list"

record connmgr_config =
  ConnMgrLo :: int
  ConnMgrHi :: int
  ConnMgrGrace :: int

record relayv2_config =
  Enabled :: bool
  Resources :: relay_resources

record daemon_config =
  PromPort :: int
  PprofPort :: int

record config =
  Network :: network_config
  ConnMgr :: connmgr_config
  RelayV2 :: relayv2_config
  ACL :: acl_config
  Daemon :: daemon_config

text \<open>The three command-line flags, after \<open>flag.Parse()\<close>.\<close>

record args =
  idPath :: string
  cfgPath :: string
  pskPath :: string

datatype security = TLS | Noise

text \<open>
  The options handed to \<open>libp2p.New\<close>. \<open>'ma\<close> is the type of multiaddresses. The address
  factory and the routing factory are closures, so they are functions here.
\<close>

datatype 'ma libp2p_option =
    Identity privkey
  | UserAgent string
  | DisableRelay
  | ListenAddrStrings "string list"
  | ResourceManager rmgr
  | ForceReachabilityPublic
  | EnableNATService
  | Security security
  | DefaultTransports
  | PrivateNetwork psk
  | AddrsFactory "'ma list \<Rightarrow> 'ma list"
  | ConnectionManager connmgr
  | Routing "host \<Rightarrow> error + dht"

text \<open>What \<open>http.ListenAndServe\<close> does: it serves and never returns, or it returns an error.\<close>

datatype serve = Serving | Returned "error option"

text \<open>The lines \<open>main\<close> and \<open>listenPprof\<close> print, one constructor for each format string.\<close>

datatype 'ma message =
    MsgSwarmKeyError error
  | MsgPSKDetected "nat list"
  | MsgIAm host
  | MsgPublicAddresses
  | MsgAddr 'ma host
  | MsgStartingRelayV2
  | MsgRelayV2Running
  | MsgPprofDisabled
  | MsgPprofRegistering string
  | MsgPprofError string error

datatype goroutine = PromServer int | ListenPprof int

datatype 'ma event =
    CallLoadConfig string
  | CallLoadIdentity string
  | CallHttpHandle string
  | Go goroutine
  | CallMustRegisterWith
  | CallNewStatsTraceReporter
  | CallNewResourceManager reporter
  | CallLoadSwarmKey string
  | Printf "'ma message"
  | CallNewConnManager int int int
  | CallNew "'ma libp2p_option list"
  | CallBootstrap dht
  | Sleep
  | CallNewACL host acl_config
  | CallRelayNew host relay_resources acl
  | CallListenAndServe string

text \<open>
  How a goroutine ends: it blocks for ever (\<open>select {}\<close>, or a server that keeps serving),
  it returns, it panics, or it calls \<open>log.Fatal\<close>, which logs its argument and calls
  \<open>os.Exit(1)\<close>.
\<close>

datatype outcome = Blocks | Returns | Panics error | LogFatal "error option"

type_synonym 'ma run = "outcome \<times> 'ma event list"

subsection \<open>The environment\<close>

text \<open>
  One field for each call that leaves the file. \<open>LoadSwarmKey\<close> returns three values, of
  which \<open>main\<close> tests the first and the third against nil. \<open>libp2p_New\<close> returns, beside
  its result, the host it has called the routing factory with (if it has): the factory
  assigns the variable \<open>kaddht\<close> that \<open>main\<close> reads afterwards.
\<close>

record 'ma env =
  LoadConfig :: "string \<Rightarrow> error + config"
  LoadIdentity :: "string \<Rightarrow> error + privkey"
  MustRegisterWith :: "error option"
  NewStatsTraceReporter :: "error + reporter"
  NewResourceManager :: "reporter \<Rightarrow> error + rmgr"
  LoadSwarmKey :: "string \<Rightarrow> psk option \<times> nat list \<times> error option"
  NewMultiaddr :: "string \<Rightarrow> error + 'ma"
  IsPublicAddr :: "'ma \<Rightarrow> bool"
  NewConnManager :: "int \<Rightarrow> int \<Rightarrow> int \<Rightarrow> error + connmgr"
  libp2p_New :: "'ma libp2p_option list \<Rightarrow> host option \<times> (error + host)"
  dht_New :: "host \<Rightarrow> error + dht"
  Bootstrap :: "dht \<Rightarrow> error option"
  host_Addrs :: "host \<Rightarrow> 'ma list"
  NewACL :: "host \<Rightarrow> acl_config \<Rightarrow> error + acl"
  relayv2_New :: "host \<Rightarrow> relay_resources \<Rightarrow> acl \<Rightarrow> error option"
  ListenAndServe :: "string \<Rightarrow> serve"

subsection \<open>Formatting a port: \<open>fmt.Sprintf("%d", p)\<close>\<close>

definition digit :: "nat \<Rightarrow> char" where
  "digit n = ''0123456789'' ! n"

fun nat_dec :: "nat \<Rightarrow> string" where
  "nat_dec n = (if n < 10 then [digit n] else nat_dec (n div 10) @ [digit (n mod 10)])"

declare nat_dec.simps [simp del]

definition fmt_d :: "int \<Rightarrow> string" where
  "fmt_d i = (if i < 0 then CHR ''-'' # nat_dec (nat (- i)) else nat_dec (nat i))"

subsection \<open>Traces\<close>

text \<open>\<open>emit evs r\<close>: the events \<open>evs\<close> happen, then the program goes on as \<open>r\<close>.\<close>

definition emit :: "'ma event list \<Rightarrow> 'ma run \<Rightarrow> 'ma run" where
  "emit evs r = (fst r, evs @ snd r)"

subsection \<open>\<open>listenPprof\<close> (lines 180 to 197)\<close>

definition listenPprof :: "'ma env \<Rightarrow> int \<Rightarrow> 'ma run" where
  "listenPprof env p =
     (if p = - 1 then (Returns, [Printf MsgPprofDisabled])
      else
        emit [Printf (MsgPprofRegistering (''localhost:'' @ fmt_d p)),
              CallListenAndServe (''localhost:'' @ fmt_d p)]
          (case ListenAndServe env (''localhost:'' @ fmt_d p) of
             Serving \<Rightarrow> (Blocks, [])
           | Returned None \<Rightarrow> (Returns, [])
           | Returned (Some err) \<Rightarrow>
               if err = ErrServerClosed then (Returns, [])
               else (Panics err, [Printf (MsgPprofError (''localhost:'' @ fmt_d p) err)])))"

subsection \<open>The metrics goroutine (lines 50 to 53)\<close>

text \<open>
  \<open>log.Fatal(http.ListenAndServe(...))\<close>: when the server returns, whatever it returns
  is logged and the process exits.
\<close>

definition promServer :: "'ma env \<Rightarrow> int \<Rightarrow> 'ma run" where
  "promServer env port =
     emit [CallHttpHandle ''/debug/metrics/prometheus'', CallListenAndServe (CHR '':'' # fmt_d port)]
       (case ListenAndServe env (CHR '':'' # fmt_d port) of
          Serving \<Rightarrow> (Blocks, [])
        | Returned err \<Rightarrow> (LogFatal err, []))"

subsection \<open>\<open>main\<close> (lines 34 to 178)\<close>

text \<open>
  Lines 165 to 177: the relay service, behind the configuration switch, and the final
  \<open>select {}\<close>.
\<close>

definition startRelay :: "'ma env \<Rightarrow> config \<Rightarrow> host \<Rightarrow> acl \<Rightarrow> 'ma run" where
  "startRelay env cfg h a =
     (if Enabled (RelayV2 cfg) then
        emit [Printf MsgStartingRelayV2, CallRelayNew h (Resources (RelayV2 cfg)) a]
          (case relayv2_New env h (Resources (RelayV2 cfg)) a of
             Some err \<Rightarrow> (Panics err, [])
           | None \<Rightarrow> (Blocks, [Printf MsgRelayV2Running]))
      else (Blocks, []))"

text \<open>
  Lines 147 to 163: bootstrap of the DHT that the routing factory has stored in
  \<open>kaddht\<close> (a nil \<open>kaddht\<close> panics on the call), the banner, the pprof goroutine, the ACL.
\<close>

definition banner :: "'ma env \<Rightarrow> host \<Rightarrow> 'ma event list" where
  "banner env h =
     [Printf (MsgIAm h), Printf MsgPublicAddresses]
       @ map (\<lambda>addr. Printf (MsgAddr addr h)) (host_Addrs env h)"

definition afterHost :: "'ma env \<Rightarrow> config \<Rightarrow> host \<Rightarrow> dht option \<Rightarrow> 'ma run" where
  "afterHost env cfg h kaddht =
     (case kaddht of
        None \<Rightarrow> (Panics NilDereference, [])
      | Some d \<Rightarrow>
          emit [CallBootstrap d]
            (case Bootstrap env d of
               Some err \<Rightarrow> (Panics err, [])
             | None \<Rightarrow>
                 emit (banner env h
                         @ [Go (ListenPprof (PprofPort (Daemon cfg))), Sleep,
                            CallNewACL h (ACL cfg)])
                   (case NewACL env h (ACL cfg) of
                      Inl err \<Rightarrow> (Panics err, [])
                    | Inr a \<Rightarrow> startRelay env cfg h a)))"

text \<open>
  Lines 121 to 146: the connection manager, the routing factory \<open>newDHT\<close>, and
  \<open>libp2p.New\<close>. \<open>newDHT\<close> assigns \<open>kaddht\<close> what \<open>dht.New\<close> returns, nil when it fails.
\<close>

definition newDHT :: "'ma env \<Rightarrow> host \<Rightarrow> error + dht" where
  "newDHT env h = dht_New env h"

definition kaddhtAfter :: "'ma env \<Rightarrow> host option \<Rightarrow> dht option" where
  "kaddhtAfter env called =
     (case called of
        None \<Rightarrow> None
      | Some h \<Rightarrow> (case newDHT env h of Inl err \<Rightarrow> None | Inr d \<Rightarrow> Some d))"

definition hostOpts :: "'ma env \<Rightarrow> 'ma libp2p_option list \<Rightarrow> connmgr \<Rightarrow> 'ma libp2p_option list" where
  "hostOpts env opts cm = opts @ [ConnectionManager cm, Routing (newDHT env)]"

definition buildHost :: "'ma env \<Rightarrow> config \<Rightarrow> 'ma libp2p_option list \<Rightarrow> 'ma run" where
  "buildHost env cfg opts =
     emit [CallNewConnManager (ConnMgrLo (ConnMgr cfg)) (ConnMgrHi (ConnMgr cfg))
             (ConnMgrGrace (ConnMgr cfg))]
       (case NewConnManager env (ConnMgrLo (ConnMgr cfg)) (ConnMgrHi (ConnMgr cfg))
               (ConnMgrGrace (ConnMgr cfg)) of
          Inl err \<Rightarrow> (Panics err, [])
        | Inr cm \<Rightarrow>
            emit [CallNew (hostOpts env opts cm)]
              (case libp2p_New env (hostOpts env opts cm) of
                 (called, Inl err) \<Rightarrow> (Panics err, [])
               | (called, Inr h) \<Rightarrow> afterHost env cfg h (kaddhtAfter env called)))"

text \<open>
  Lines 96 to 119: the address factory. \<open>ma.StringCast\<close> panics on a string that does not
  parse. The two loops append to \<open>announce\<close>.
\<close>

definition StringCast :: "'ma env \<Rightarrow> string \<Rightarrow> error + 'ma" where
  "StringCast env s = NewMultiaddr env s"

fun castAll :: "'ma env \<Rightarrow> string list \<Rightarrow> 'ma list \<Rightarrow> error + 'ma list" where
  "castAll env [] announce = Inr announce"
| "castAll env (s # ss) announce =
     (case StringCast env s of
        Inl err \<Rightarrow> Inl err
      | Inr a \<Rightarrow> castAll env ss (announce @ [a]))"

fun publicAddrs :: "'ma env \<Rightarrow> 'ma list \<Rightarrow> 'ma list \<Rightarrow> 'ma list" where
  "publicAddrs env [] announce = announce"
| "publicAddrs env (a # addrs) announce =
     (if IsPublicAddr env a then publicAddrs env addrs (announce @ [a])
      else publicAddrs env addrs announce)"

definition addrsFactory :: "'ma env \<Rightarrow> config \<Rightarrow> error + ('ma list \<Rightarrow> 'ma list)" where
  "addrsFactory env cfg =
     (if length (AnnounceAddrs (Network cfg)) > 0 then
        (case castAll env (AnnounceAddrs (Network cfg)) [] of
           Inl err \<Rightarrow> Inl err
         | Inr announce \<Rightarrow> Inr (\<lambda>addrs. announce))
      else Inr (\<lambda>addrs. publicAddrs env addrs []))"

text \<open>
  Lines 84 to 94: the swarm key. \<open>flag.String\<close> never returns nil, so the outer test
  \<open>pskPath != nil\<close> always holds. The result is the options to append and the lines
  printed.
\<close>

definition loadPSK :: "'ma env \<Rightarrow> string \<Rightarrow> 'ma libp2p_option list \<times> 'ma event list" where
  "loadPSK env path =
     (case LoadSwarmKey env path of
        (k, fprint, err) \<Rightarrow>
          ((case k of Some key \<Rightarrow> [PrivateNetwork key] | None \<Rightarrow> []),
           (case err of Some e \<Rightarrow> [Printf (MsgSwarmKeyError e)] | None \<Rightarrow> [])
             @ (case k of Some key \<Rightarrow> [Printf (MsgPSKDetected fprint)] | None \<Rightarrow> [])))"

text \<open>Lines 66 to 82: the options that do not depend on the swarm key.\<close>

definition baseOpts :: "config \<Rightarrow> privkey \<Rightarrow> rmgr \<Rightarrow> 'ma libp2p_option list" where
  "baseOpts cfg privk rm =
     [Identity privk, UserAgent ''relayd/1.0'', DisableRelay,
      ListenAddrStrings (ListenAddrs (Network cfg)), ResourceManager rm,
      ForceReachabilityPublic, EnableNATService, Security TLS, Security Noise,
      DefaultTransports]"

text \<open>Lines 66 to 146, once the resource manager exists.\<close>

definition withResources :: "'ma env \<Rightarrow> args \<Rightarrow> config \<Rightarrow> privkey \<Rightarrow> rmgr \<Rightarrow> 'ma run" where
  "withResources env ar cfg privk rm =
     emit (CallLoadSwarmKey (pskPath ar) # snd (loadPSK env (pskPath ar)))
       (case addrsFactory env cfg of
          Inl err \<Rightarrow> (Panics err, [])
        | Inr f \<Rightarrow>
            buildHost env cfg
              (baseOpts cfg privk rm @ fst (loadPSK env (pskPath ar)) @ [AddrsFactory f]))"

text \<open>Lines 49 to 64, once configuration and identity are loaded.\<close>

definition withIdentity :: "'ma env \<Rightarrow> args \<Rightarrow> config \<Rightarrow> privkey \<Rightarrow> 'ma run" where
  "withIdentity env ar cfg privk =
     emit [CallHttpHandle ''/metrics'', Go (PromServer (PromPort (Daemon cfg))),
           CallMustRegisterWith]
       (case MustRegisterWith env of
          Some err \<Rightarrow> (Panics err, [])
        | None \<Rightarrow>
            emit [CallNewStatsTraceReporter]
              (case NewStatsTraceReporter env of
                 Inl err \<Rightarrow> (LogFatal (Some err), [])
               | Inr str \<Rightarrow>
                   emit [CallNewResourceManager str]
                     (case NewResourceManager env str of
                        Inl err \<Rightarrow> (LogFatal (Some err), [])
                      | Inr rm \<Rightarrow> withResources env ar cfg privk rm)))"

definition main :: "'ma env \<Rightarrow> args \<Rightarrow> 'ma run" where
  "main env ar =
     emit [CallLoadConfig (cfgPath ar)]
       (case LoadConfig env (cfgPath ar) of
          Inl err \<Rightarrow> (Panics err, [])
        | Inr cfg \<Rightarrow>
            emit [CallLoadIdentity (idPath ar)]
              (case LoadIdentity env (idPath ar) of
                 Inl err \<Rightarrow> (Panics err, [])
               | Inr privk \<Rightarrow> withIdentity env ar cfg privk))"

text \<open>
  The trace of \<open>main\<close> up to and including the call of \<open>libp2p.New\<close> with \<open>opts\<close>, when
  every call before it has succeeded (lines 40 to 143).
\<close>

definition startupPrefix ::
  "'ma env \<Rightarrow> args \<Rightarrow> config \<Rightarrow> reporter \<Rightarrow> 'ma libp2p_option list \<Rightarrow> 'ma event list" where
  "startupPrefix env ar cfg str opts =
     [CallLoadConfig (cfgPath ar), CallLoadIdentity (idPath ar), CallHttpHandle ''/metrics'',
      Go (PromServer (PromPort (Daemon cfg))), CallMustRegisterWith, CallNewStatsTraceReporter,
      CallNewResourceManager str, CallLoadSwarmKey (pskPath ar)]
     @ snd (loadPSK env (pskPath ar))
     @ [CallNewConnManager (ConnMgrLo (ConnMgr cfg)) (ConnMgrHi (ConnMgr cfg))
          (ConnMgrGrace (ConnMgr cfg)),
        CallNew opts]"

subsection \<open>The process\<close>

text \<open>
  A Go program ends when any goroutine panics without recovery or calls \<open>os.Exit\<close>; a
  goroutine that returns or blocks leaves the others running. How the goroutines
  interleave is not part of the model: each goroutine is given by its own trace and by
  how it ends, and the process dies when \<open>main\<close> or a goroutine it has started ends it.
\<close>

fun killsProcess :: "outcome \<Rightarrow> bool" where
  "killsProcess (Panics err) = True"
| "killsProcess (LogFatal err) = True"
| "killsProcess Blocks = False"
| "killsProcess Returns = False"

fun goroutineRun :: "'ma env \<Rightarrow> goroutine \<Rightarrow> 'ma run" where
  "goroutineRun env (PromServer port) = promServer env port"
| "goroutineRun env (ListenPprof p) = listenPprof env p"

fun spawned :: "'ma event list \<Rightarrow> goroutine list" where
  "spawned [] = []"
| "spawned (Go g # tr) = g # spawned tr"
| "spawned (ev # tr) = spawned tr"

definition processDies :: "'ma env \<Rightarrow> args \<Rightarrow> bool" where
  "processDies env ar =
     (killsProcess (fst (main env ar)) \<or>
      list_ex (\<lambda>g. killsProcess (fst (goroutineRun env g))) (spawned (snd (main env ar))))"

subsection \<open>The startup steps in a trace\<close>

datatype step =
    StepIdentity | StepResourceManager | StepConnManager | StepHost | StepBootstrap
  | StepACL | StepRelay

fun steps :: "'ma event list \<Rightarrow> step list" where
  "steps [] = []"
| "steps (CallLoadIdentity path # tr) = StepIdentity # steps tr"
| "steps (CallNewResourceManager str # tr) = StepResourceManager # steps tr"
| "steps (CallNewConnManager lo hi grace # tr) = StepConnManager # steps tr"
| "steps (CallNew opts # tr) = StepHost # steps tr"
| "steps (CallBootstrap d # tr) = StepBootstrap # steps tr"
| "steps (CallNewACL h c # tr) = StepACL # steps tr"
| "steps (CallRelayNew h r a # tr) = StepRelay # steps tr"
| "steps (ev # tr) = steps tr"

subsection \<open>A sample configuration and environment\<close>

text \<open>
  An environment over multiaddresses written as strings, in which every call succeeds and
  both HTTP servers keep serving; then variants in which one call fails.
\<close>

definition sampleConfig :: config where
  "sampleConfig =
     \<lparr>Network = \<lparr>ListenAddrs = [''/ip4/0.0.0.0/tcp/4001''], AnnounceAddrs = []\<rparr>,
      ConnMgr = \<lparr>ConnMgrLo = 512, ConnMgrHi = 768, ConnMgrGrace = 120\<rparr>,
      RelayV2 = \<lparr>Enabled = True, Resources = RelayResources 0\<rparr>,
      ACL = ACLConfig 0,
      Daemon = \<lparr>PromPort = 8888, PprofPort = 6060\<rparr>\<rparr>"

definition staticConfig :: config where
  "staticConfig =
     sampleConfig\<lparr>Network := \<lparr>ListenAddrs = [''/ip4/0.0.0.0/tcp/4001''],
                                AnnounceAddrs = [''/ip4/203.0.113.7/tcp/4001'']\<rparr>\<rparr>"

definition sampleArgs :: args where
  "sampleArgs = \<lparr>idPath = ''identity'', cfgPath = ''config.json'', pskPath = ''swarm.key''\<rparr>"

definition sampleEnv :: "string env" where
  "sampleEnv =
     \<lparr>LoadConfig = (\<lambda>path. Inr sampleConfig),
      LoadIdentity = (\<lambda>path. Inr (PrivKey 1)),
      MustRegisterWith = None,
      NewStatsTraceReporter = Inr (Reporter 1),
      NewResourceManager = (\<lambda>str. Inr (RMgr 1)),
      LoadSwarmKey = (\<lambda>path. (None, [], None)),
      NewMultiaddr = (\<lambda>s. if take 1 s = ''/'' then Inr s else Inl (Error ''failed to parse multiaddr'')),
      IsPublicAddr = (\<lambda>a. take 9 a \<noteq> ''/ip4/127.'' \<and> take 8 a \<noteq> ''/ip4/10.''),
      NewConnManager = (\<lambda>lo hi grace. Inr (BasicConnMgr 1)),
      libp2p_New = (\<lambda>opts. (Some (Host 1), Inr (Host 1))),
      dht_New = (\<lambda>h. Inr (IpfsDHT 1)),
      Bootstrap = (\<lambda>d. None),
      host_Addrs = (\<lambda>h. [''/ip4/203.0.113.7/tcp/4001'']),
      NewACL = (\<lambda>h c. Inr (ACLFilter 1)),
      relayv2_New = (\<lambda>h r a. None),
      ListenAndServe = (\<lambda>addr. Serving)\<rparr>"

definition badKeyEnv :: "string env" where
  "badKeyEnv = sampleEnv\<lparr>LoadSwarmKey := (\<lambda>path. (None, [], Some (Error ''decode'')))\<rparr>"

definition noSeedsEnv :: "string env" where
  "noSeedsEnv = sampleEnv\<lparr>Bootstrap := (\<lambda>d. Some (Error ''no seed reachable''))\<rparr>"

definition busyPortEnv :: "string env" where
  "busyPortEnv = sampleEnv\<lparr>ListenAndServe := (\<lambda>addr. Returned (Some (Error ''address already in use'')))\<rparr>"

definition badIdentityEnv :: "string env" where
  "badIdentityEnv = sampleEnv\<lparr>LoadIdentity := (\<lambda>path. Inl (Error ''malformed key''))\<rparr>"

definition staticEnv :: "string env" where
  "staticEnv = sampleEnv\<lparr>LoadConfig := (\<lambda>path. Inr staticConfig)\<rparr>"

definition badConfigEnv :: "string env" where
  "badConfigEnv = sampleEnv\<lparr>LoadConfig := (\<lambda>path. Inl (Error ''malformed configuration''))\<rparr>"

definition badHostEnv :: "string env" where
  "badHostEnv = sampleEnv\<lparr>libp2p_New := (\<lambda>opts. (None, Inl (Error ''cannot listen'')))\<rparr>"

definition disabledConfig :: config where
  "disabledConfig = sampleConfig\<lparr>RelayV2 := \<lparr>Enabled = False, Resources = RelayResources 0\<rparr>\<rparr>"

definition disabledEnv :: "string env" where
  "disabledEnv = sampleEnv\<lparr>LoadConfig := (\<lambda>path. Inr disabledConfig)\<rparr>"

section \<open>Properties\<close>

subsection \<open>Traces and steps\<close>

lemma fst_emit [simp]: "fst (emit evs r) = fst r"
  by (simp add: emit_def)

lemma snd_emit [simp]: "snd (emit evs r) = evs @ snd r"
  by (simp add: emit_def)

lemma emit_emit: "emit evs (emit evs' r) = emit (evs @ evs') r"
  by (simp add: emit_def)

lemma steps_append [simp]: "steps (tr @ tr') = steps tr @ steps tr'"
  by (induction tr rule: steps.induct) simp_all

lemma steps_loadPSK [simp]: "steps (snd (loadPSK env path)) = []"
  by (simp add: loadPSK_def split: prod.splits option.splits)

lemma steps_banner [simp]: "steps (banner env h) = []"
proof -
  have "steps (map (\<lambda>addr. Printf (m addr)) addrs) = []"
    for m :: "'a \<Rightarrow> 'a message" and addrs
    by (induction addrs) simp_all
  then show ?thesis by (simp add: banner_def)
qed

lemma spawned_Go: "Go g \<in> set tr \<Longrightarrow> g \<in> set (spawned tr)"
  by (induction tr rule: spawned.induct) auto

lemmas sample_defs = sampleEnv_def sampleConfig_def sampleArgs_def

lemmas main_defs =
  main_def withIdentity_def withResources_def buildHost_def afterHost_def startRelay_def
  hostOpts_def baseOpts_def loadPSK_def banner_def addrsFactory_def kaddhtAfter_def newDHT_def

subsection \<open>The address factory\<close>

lemma publicAddrs_filter:
  "publicAddrs env addrs announce = announce @ filter (IsPublicAddr env) addrs"
  by (induction addrs arbitrary: announce) simp_all

lemma castAll_Inr:
  "castAll env ss announce = Inr res \<Longrightarrow>
     map Inr res = map Inr announce @ map (StringCast env) ss"
proof (induction ss arbitrary: announce)
  case Nil
  then show ?case by simp
next
  case (Cons s ss)
  then show ?case by (auto split: sum.splits)
qed

lemma castAll_total:
  "\<forall>s \<in> set ss. \<exists>a. StringCast env s = Inr a \<Longrightarrow> \<exists>res. castAll env ss announce = Inr res"
proof (induction ss arbitrary: announce)
  case Nil
  then show ?case by simp
next
  case (Cons s ss)
  then obtain a where a: "StringCast env s = Inr a" by auto
  from Cons have "\<exists>res. castAll env ss (announce @ [a]) = Inr res" by simp
  with a show ?case by simp
qed

lemma addrsFactory_automatic:
  "AnnounceAddrs (Network cfg) = [] \<Longrightarrow>
     addrsFactory env cfg = Inr (\<lambda>addrs. filter (IsPublicAddr env) addrs)"
  by (simp add: addrsFactory_def publicAddrs_filter)

text \<open>
  Claim C3. With a non-empty \<open>network.announceAddrs\<close> whose strings all parse, \<open>main\<close>
  builds an address factory, and for every list of candidate addresses the factory
  returns the same list: the configured strings, each cast to a multiaddress, in the
  configured order. (A string that does not parse makes \<open>ma.StringCast\<close> panic before
  any factory exists.)
\<close>

theorem static_announce_constant:
  assumes "AnnounceAddrs (Network cfg) \<noteq> []"
    and "\<forall>s \<in> set (AnnounceAddrs (Network cfg)). \<exists>a. StringCast env s = Inr a"
  shows "\<exists>f. addrsFactory env cfg = Inr f \<and>
           (\<forall>addrs. map Inr (f addrs) = map (StringCast env) (AnnounceAddrs (Network cfg)))"
proof -
  from assms(2) obtain res where res: "castAll env (AnnounceAddrs (Network cfg)) [] = Inr res"
    using castAll_total by blast
  then have "map Inr res = map (StringCast env) (AnnounceAddrs (Network cfg))"
    using castAll_Inr by fastforce
  with res assms(1) show ?thesis
    by (simp add: addrsFactory_def)
qed

theorem static_announce_constant_witness:
  "AnnounceAddrs (Network staticConfig) = [''/ip4/203.0.113.7/tcp/4001''] \<and>
   StringCast staticEnv ''/ip4/203.0.113.7/tcp/4001'' = Inr ''/ip4/203.0.113.7/tcp/4001'' \<and>
   (\<exists>f. addrsFactory staticEnv staticConfig = Inr f \<and>
      (\<forall>addrs. f addrs = [''/ip4/203.0.113.7/tcp/4001'']))"
proof -
  have h1: "AnnounceAddrs (Network staticConfig) \<noteq> []"
    by (simp add: staticConfig_def sampleConfig_def)
  have h2: "\<forall>s \<in> set (AnnounceAddrs (Network staticConfig)). \<exists>a. StringCast staticEnv s = Inr a"
    by (simp add: staticConfig_def sampleConfig_def StringCast_def staticEnv_def sampleEnv_def)
  from static_announce_constant [OF h1 h2] obtain f
    where f: "addrsFactory staticEnv staticConfig = Inr f"
      and c: "\<forall>addrs. map Inr (f addrs)
                = map (StringCast staticEnv) (AnnounceAddrs (Network staticConfig))"
    by blast
  have "map (StringCast staticEnv) (AnnounceAddrs (Network staticConfig))
          = map Inr [''/ip4/203.0.113.7/tcp/4001'']"
    by (simp add: staticConfig_def sampleConfig_def StringCast_def staticEnv_def sampleEnv_def)
  with c have "map Inr (f addrs) = map (Inr :: string \<Rightarrow> error + string) [''/ip4/203.0.113.7/tcp/4001'']"
    for addrs by simp
  then have "\<forall>addrs. f addrs = [''/ip4/203.0.113.7/tcp/4001'']"
    using map_injective [OF _ inj_Inr] by blast
  moreover have "AnnounceAddrs (Network staticConfig) = [''/ip4/203.0.113.7/tcp/4001'']"
    by (simp add: staticConfig_def sampleConfig_def)
  moreover have "StringCast staticEnv ''/ip4/203.0.113.7/tcp/4001''
                   = Inr ''/ip4/203.0.113.7/tcp/4001''"
    by (simp add: StringCast_def staticEnv_def sampleEnv_def)
  ultimately show ?thesis using f by blast
qed

text \<open>
  Claim C4. With an empty \<open>network.announceAddrs\<close>, \<open>main\<close> builds an address factory,
  and for every list of candidate addresses every address the factory returns is one of
  the candidates and is classified public by \<open>manet.IsPublicAddr\<close>.
\<close>

theorem automatic_announce_public_subset:
  assumes "AnnounceAddrs (Network cfg) = []"
  shows "\<exists>f. addrsFactory env cfg = Inr f \<and>
           (\<forall>addrs. set (f addrs) \<subseteq> set addrs \<and> (\<forall>a \<in> set (f addrs). IsPublicAddr env a))"
  using assms by (simp add: addrsFactory_automatic)

theorem automatic_announce_public_subset_witness:
  "AnnounceAddrs (Network sampleConfig) = [] \<and>
   (\<exists>f. addrsFactory sampleEnv sampleConfig = Inr f \<and>
      f [''/ip4/127.0.0.1/tcp/4001'', ''/ip4/198.51.100.4/tcp/4001'', ''/ip4/10.1.2.3/tcp/4001'']
        = [''/ip4/198.51.100.4/tcp/4001''] \<and>
      (\<forall>addrs. set (f addrs) \<subseteq> set addrs \<and> (\<forall>a \<in> set (f addrs). IsPublicAddr sampleEnv a)))"
proof -
  have h: "AnnounceAddrs (Network sampleConfig) = []"
    by (simp add: sampleConfig_def)
  obtain f where f: "addrsFactory sampleEnv sampleConfig = Inr f"
    and p: "\<forall>addrs. set (f addrs) \<subseteq> set addrs \<and> (\<forall>a \<in> set (f addrs). IsPublicAddr sampleEnv a)"
    using automatic_announce_public_subset [OF h, of sampleEnv] by blast
  from f have "f = (\<lambda>addrs. publicAddrs sampleEnv addrs [])"
    by (simp add: addrsFactory_def h)
  then have "f [''/ip4/127.0.0.1/tcp/4001'', ''/ip4/198.51.100.4/tcp/4001'', ''/ip4/10.1.2.3/tcp/4001'']
        = [''/ip4/198.51.100.4/tcp/4001'']"
    by (simp add: sampleEnv_def)
  with h f p show ?thesis by blast
qed

text \<open>
  Claim C9. With an empty \<open>network.announceAddrs\<close>, the address factory returns a
  subsequence of its argument (the addresses it keeps stay in their order), and applying
  it to its own result changes nothing.
\<close>

theorem automatic_announce_subseq_idempotent:
  assumes "AnnounceAddrs (Network cfg) = []"
  shows "\<exists>f. addrsFactory env cfg = Inr f \<and>
           (\<forall>addrs. subseq (f addrs) addrs \<and> f (f addrs) = f addrs)"
  using assms by (simp add: addrsFactory_automatic)

theorem automatic_announce_subseq_idempotent_witness:
  "AnnounceAddrs (Network sampleConfig) = [] \<and>
   (\<exists>f. addrsFactory sampleEnv sampleConfig = Inr f \<and>
      f [''/ip4/10.1.2.3/tcp/4001'', ''/ip4/198.51.100.4/tcp/4001'', ''/ip4/192.0.2.9/udp/4001'']
        = [''/ip4/198.51.100.4/tcp/4001'', ''/ip4/192.0.2.9/udp/4001''] \<and>
      (\<forall>addrs. subseq (f addrs) addrs \<and> f (f addrs) = f addrs))"
proof -
  have h: "AnnounceAddrs (Network sampleConfig) = []"
    by (simp add: sampleConfig_def)
  obtain f where f: "addrsFactory sampleEnv sampleConfig = Inr f"
    and p: "\<forall>addrs. subseq (f addrs) addrs \<and> f (f addrs) = f addrs"
    using automatic_announce_subseq_idempotent [OF h, of sampleEnv] by blast
  from f have "f = (\<lambda>addrs. publicAddrs sampleEnv addrs [])"
    by (simp add: addrsFactory_def h)
  then have "f [''/ip4/10.1.2.3/tcp/4001'', ''/ip4/198.51.100.4/tcp/4001'', ''/ip4/192.0.2.9/udp/4001'']
        = [''/ip4/198.51.100.4/tcp/4001'', ''/ip4/192.0.2.9/udp/4001'']"
    by (simp add: sampleEnv_def)
  with h f p show ?thesis by blast
qed

subsection \<open>The pprof server\<close>

text \<open>
  Claim C10. With port \<open>-1\<close>, \<open>listenPprof\<close> prints that pprof is disabled and returns: it
  calls \<open>http.ListenAndServe\<close> on no address. With any other port \<open>p\<close> it announces and
  then calls \<open>http.ListenAndServe\<close> on \<open>localhost:p\<close>.
\<close>

theorem listenPprof_disabled_or_serves:
  "listenPprof env (- 1) = (Returns, [Printf MsgPprofDisabled]) \<and>
   (p \<noteq> - 1 \<longrightarrow>
      (\<exists>rest. snd (listenPprof env p) =
         [Printf (MsgPprofRegistering (''localhost:'' @ fmt_d p)),
          CallListenAndServe (''localhost:'' @ fmt_d p)] @ rest))"
  by (simp add: listenPprof_def)

theorem listenPprof_disabled_or_serves_witness:
  "(6060::int) \<noteq> - 1 \<and> listenPprof sampleEnv (- 1) = (Returns, [Printf MsgPprofDisabled]) \<and>
   fmt_d 6060 = ''6060'' \<and>
   (\<exists>rest. snd (listenPprof sampleEnv 6060) =
         [Printf (MsgPprofRegistering ''localhost:6060''),
          CallListenAndServe ''localhost:6060''] @ rest)"
proof -
  have d: "fmt_d 6060 = ''6060''"
    by (simp add: fmt_d_def nat_dec.simps digit_def)
  show ?thesis
    using listenPprof_disabled_or_serves [of sampleEnv 6060] by (simp add: d)
qed

subsection \<open>The stages of \<open>main\<close>\<close>

lemma step_of_call:
  "CallNew opts \<in> set tr \<Longrightarrow> StepHost \<in> set (steps tr)"
  "CallBootstrap d \<in> set tr \<Longrightarrow> StepBootstrap \<in> set (steps tr)"
  "CallNewACL h c \<in> set tr \<Longrightarrow> StepACL \<in> set (steps tr)"
  "CallRelayNew h r a \<in> set tr \<Longrightarrow> StepRelay \<in> set (steps tr)"
  by (induction tr rule: steps.induct) auto

lemma loadPSK_events:
  "ev \<in> set (snd (loadPSK env path)) \<Longrightarrow>
     (\<exists>e. ev = Printf (MsgSwarmKeyError e) \<and> snd (snd (LoadSwarmKey env path)) = Some e) \<or>
     (\<exists>fp. ev = Printf (MsgPSKDetected fp))"
  by (auto simp: loadPSK_def split: prod.splits option.splits)

lemma startRelay_events:
  "ev \<in> set (snd (startRelay env cfg h a)) \<Longrightarrow>
     ev = Printf MsgStartingRelayV2 \<or> ev = Printf MsgRelayV2Running \<or>
     ev = CallRelayNew h (Resources (RelayV2 cfg)) a \<and> Enabled (RelayV2 cfg)"
  by (auto simp: startRelay_def split: if_splits option.splits)

lemma banner_events:
  "ev \<in> set (banner env h) \<Longrightarrow> \<exists>m. ev = Printf m \<and> (\<forall>e. m \<noteq> MsgSwarmKeyError e)"
  by (auto simp: banner_def)

lemma afterHost_events:
  "ev \<in> set (snd (afterHost env cfg h kaddht)) \<Longrightarrow>
     (\<exists>m. ev = Printf m \<and> (\<forall>e. m \<noteq> MsgSwarmKeyError e)) \<or> ev = Sleep \<or>
     ev = Go (ListenPprof (PprofPort (Daemon cfg))) \<or>
     (\<exists>d. ev = CallBootstrap d \<and> kaddht = Some d) \<or>
     (ev = CallNewACL h (ACL cfg) \<and> (\<exists>d. kaddht = Some d \<and> Bootstrap env d = None)) \<or>
     (\<exists>a. ev = CallRelayNew h (Resources (RelayV2 cfg)) a \<and> Enabled (RelayV2 cfg) \<and>
           NewACL env h (ACL cfg) = Inr a \<and> (\<exists>d. kaddht = Some d \<and> Bootstrap env d = None))"
  by (auto simp: afterHost_def split: option.splits sum.splits
      dest: startRelay_events banner_events)

lemma main_early:
  assumes "LoadConfig env (cfgPath ar) = Inl e \<or>
           (\<exists>cfg. LoadConfig env (cfgPath ar) = Inr cfg \<and>
              (LoadIdentity env (idPath ar) = Inl e \<or> MustRegisterWith env = Some e \<or>
               NewStatsTraceReporter env = Inl e \<or>
               (\<exists>str. NewStatsTraceReporter env = Inr str \<and> NewResourceManager env str = Inl e)))"
  shows "fst (main env ar) \<noteq> Blocks"
    and "set (steps (snd (main env ar))) \<subseteq> {StepIdentity, StepResourceManager}"
    and "CallLoadSwarmKey p \<notin> set (snd (main env ar))"
  using assms
  by (auto simp: main_def withIdentity_def split: sum.splits option.splits)

lemma main_withResources:
  assumes "LoadConfig env (cfgPath ar) = Inr cfg"
    and "LoadIdentity env (idPath ar) = Inr privk"
    and "MustRegisterWith env = None"
    and "NewStatsTraceReporter env = Inr str"
    and "NewResourceManager env str = Inr rm"
  shows "main env ar =
           emit [CallLoadConfig (cfgPath ar), CallLoadIdentity (idPath ar), CallHttpHandle ''/metrics'',
                 Go (PromServer (PromPort (Daemon cfg))), CallMustRegisterWith,
                 CallNewStatsTraceReporter, CallNewResourceManager str]
             (withResources env ar cfg privk rm)"
  using assms by (simp add: main_def withIdentity_def emit_emit)

lemma withResources_mid:
  assumes "addrsFactory env cfg = Inl e \<or>
           NewConnManager env (ConnMgrLo (ConnMgr cfg)) (ConnMgrHi (ConnMgr cfg))
             (ConnMgrGrace (ConnMgr cfg)) = Inl e"
  shows "fst (withResources env ar cfg privk rm) \<noteq> Blocks"
    and "set (steps (snd (withResources env ar cfg privk rm))) \<subseteq> {StepConnManager}"
  using assms
  by (auto simp: withResources_def buildHost_def split: sum.splits)

lemma withResources_host:
  assumes "addrsFactory env cfg = Inr f"
    and "NewConnManager env (ConnMgrLo (ConnMgr cfg)) (ConnMgrHi (ConnMgr cfg))
           (ConnMgrGrace (ConnMgr cfg)) = Inr cm"
    and "opts = hostOpts env (baseOpts cfg privk rm @ fst (loadPSK env (pskPath ar)) @ [AddrsFactory f]) cm"
  shows "withResources env ar cfg privk rm =
           emit (CallLoadSwarmKey (pskPath ar) # snd (loadPSK env (pskPath ar))
                 @ [CallNewConnManager (ConnMgrLo (ConnMgr cfg)) (ConnMgrHi (ConnMgr cfg))
                      (ConnMgrGrace (ConnMgr cfg)), CallNew opts])
             (case libp2p_New env opts of
                (called, Inl err) \<Rightarrow> (Panics err, [])
              | (called, Inr h) \<Rightarrow> afterHost env cfg h (kaddhtAfter env called))"
  using assms by (simp add: withResources_def buildHost_def emit_emit)

lemma main_cases [case_names early mid host]:
  obtains
    (early) "fst (main env ar) \<noteq> Blocks"
      and "set (steps (snd (main env ar))) \<subseteq> {StepIdentity, StepResourceManager}"
      and "\<And>p. CallLoadSwarmKey p \<notin> set (snd (main env ar))"
  | (mid) cfg where "LoadConfig env (cfgPath ar) = Inr cfg"
      and "(\<exists>e. addrsFactory env cfg = Inl e) \<or>
           (\<exists>e. NewConnManager env (ConnMgrLo (ConnMgr cfg)) (ConnMgrHi (ConnMgr cfg))
                  (ConnMgrGrace (ConnMgr cfg)) = Inl e)"
      and "fst (main env ar) \<noteq> Blocks"
      and "set (steps (snd (main env ar))) \<subseteq> {StepIdentity, StepResourceManager, StepConnManager}"
  | (host) cfg privk str rm f cm opts where "LoadConfig env (cfgPath ar) = Inr cfg"
      and "LoadIdentity env (idPath ar) = Inr privk"
      and "NewResourceManager env str = Inr rm"
      and "addrsFactory env cfg = Inr f"
      and "NewConnManager env (ConnMgrLo (ConnMgr cfg)) (ConnMgrHi (ConnMgr cfg))
             (ConnMgrGrace (ConnMgr cfg)) = Inr cm"
      and "opts = hostOpts env (baseOpts cfg privk rm @ fst (loadPSK env (pskPath ar)) @ [AddrsFactory f]) cm"
      and "main env ar =
             emit (startupPrefix env ar cfg str opts)
               (case libp2p_New env opts of
                  (called, Inl err) \<Rightarrow> (Panics err, [])
                | (called, Inr h) \<Rightarrow> afterHost env cfg h (kaddhtAfter env called))"
proof -
  consider
    (a) e where "LoadConfig env (cfgPath ar) = Inl e \<or>
           (\<exists>cfg. LoadConfig env (cfgPath ar) = Inr cfg \<and>
              (LoadIdentity env (idPath ar) = Inl e \<or> MustRegisterWith env = Some e \<or>
               NewStatsTraceReporter env = Inl e \<or>
               (\<exists>str. NewStatsTraceReporter env = Inr str \<and> NewResourceManager env str = Inl e)))"
  | (b) cfg privk str rm where "LoadConfig env (cfgPath ar) = Inr cfg"
      "LoadIdentity env (idPath ar) = Inr privk" "MustRegisterWith env = None"
      "NewStatsTraceReporter env = Inr str" "NewResourceManager env str = Inr rm"
    by (cases "LoadConfig env (cfgPath ar)"; cases "LoadIdentity env (idPath ar)";
        cases "MustRegisterWith env"; cases "NewStatsTraceReporter env") (auto, metis sum.exhaust)
  then show thesis
  proof cases
    case a
    then show thesis using early main_early by metis
  next
    case b
    note run = main_withResources [OF b]
    show thesis
    proof (cases "addrsFactory env cfg")
      case (Inl e)
      with b(1) run withResources_mid [where env=env and cfg=cfg and e=e and ar=ar and privk=privk and rm=rm]
      show thesis
        by (intro mid [of cfg]) auto
    next
      case f: (Inr f)
      show thesis
      proof (cases "NewConnManager env (ConnMgrLo (ConnMgr cfg)) (ConnMgrHi (ConnMgr cfg))
                      (ConnMgrGrace (ConnMgr cfg))")
        case (Inl e)
        with b(1) run withResources_mid [where env=env and cfg=cfg and e=e and ar=ar and privk=privk and rm=rm]
        show thesis
          by (intro mid [of cfg]) auto
      next
        case cm: (Inr cm)
        from withResources_host [OF f cm refl, where privk=privk and rm=rm and ar=ar] run b f cm
        show thesis
          by (intro host [of cfg privk str rm f cm]) (simp_all add: emit_emit startupPrefix_def)
      qed
    qed
  qed
qed

lemma startupPrefix_events:
  "ev \<in> set (startupPrefix env ar cfg str opts) \<Longrightarrow>
     ev = CallNew opts \<or> ev = CallLoadSwarmKey (pskPath ar) \<or>
     ev \<in> set (snd (loadPSK env (pskPath ar))) \<or>
     (\<forall>opts'. ev \<noteq> CallNew opts') \<and> (\<forall>d. ev \<noteq> CallBootstrap d) \<and> (\<forall>h c. ev \<noteq> CallNewACL h c) \<and>
     (\<forall>h r a. ev \<noteq> CallRelayNew h r a) \<and> (\<forall>m. ev \<noteq> Printf m) \<and> (\<forall>p. ev \<noteq> CallLoadSwarmKey p)"
  by (auto simp: startupPrefix_def)

lemma steps_startupPrefix [simp]:
  "steps (startupPrefix env ar cfg str opts) =
     [StepIdentity, StepResourceManager, StepConnManager, StepHost]"
  by (simp add: startupPrefix_def)

lemma last_startupPrefix [simp]: "last (startupPrefix env ar cfg str opts) = CallNew opts"
  by (simp add: startupPrefix_def)

lemma startupPrefix_nonempty [simp]: "startupPrefix env ar cfg str opts \<noteq> []"
  by (simp add: startupPrefix_def)

text \<open>Whoever sees a call of \<open>libp2p.New\<close> in the trace knows how \<open>main\<close> got there.\<close>

lemma main_host_call:
  assumes "CallNew opts \<in> set (snd (main env ar))"
  obtains cfg privk str rm f cm where "LoadConfig env (cfgPath ar) = Inr cfg"
    and "LoadIdentity env (idPath ar) = Inr privk"
    and "NewResourceManager env str = Inr rm"
    and "addrsFactory env cfg = Inr f"
    and "NewConnManager env (ConnMgrLo (ConnMgr cfg)) (ConnMgrHi (ConnMgr cfg))
           (ConnMgrGrace (ConnMgr cfg)) = Inr cm"
    and "opts = hostOpts env (baseOpts cfg privk rm @ fst (loadPSK env (pskPath ar)) @ [AddrsFactory f]) cm"
    and "main env ar =
           emit (startupPrefix env ar cfg str opts)
             (case libp2p_New env opts of
                (called, Inl err) \<Rightarrow> (Panics err, [])
              | (called, Inr h) \<Rightarrow> afterHost env cfg h (kaddhtAfter env called))"
proof (cases env ar rule: main_cases)
  case early
  with step_of_call(1) [OF assms] show ?thesis by auto
next
  case (mid cfg)
  with step_of_call(1) [OF assms] show ?thesis by auto
next
  case (host cfg privk str rm f cm opts')
  from assms host(7) have "opts = opts'"
    by (auto split: prod.splits sum.splits
        dest!: startupPrefix_events afterHost_events loadPSK_events)
  with host that show ?thesis by blast
qed

lemma afterHost_cases [case_names nil bootfail aclfail acl]:
  obtains
    (nil) "kaddht = None" and "afterHost env cfg h kaddht = (Panics NilDereference, [])"
  | (bootfail) d e where "kaddht = Some d" and "Bootstrap env d = Some e"
      and "afterHost env cfg h kaddht = (Panics e, [CallBootstrap d])"
  | (aclfail) d e where "kaddht = Some d" and "Bootstrap env d = None"
      and "NewACL env h (ACL cfg) = Inl e"
      and "afterHost env cfg h kaddht =
             (Panics e, CallBootstrap d # banner env h
                @ [Go (ListenPprof (PprofPort (Daemon cfg))), Sleep, CallNewACL h (ACL cfg)])"
  | (acl) d a where "kaddht = Some d" and "Bootstrap env d = None"
      and "NewACL env h (ACL cfg) = Inr a"
      and "afterHost env cfg h kaddht =
             emit (CallBootstrap d # banner env h
                @ [Go (ListenPprof (PprofPort (Daemon cfg))), Sleep, CallNewACL h (ACL cfg)])
               (startRelay env cfg h a)"
proof (cases kaddht)
  case None
  then show ?thesis using nil by (simp add: afterHost_def)
next
  case (Some d)
  show ?thesis
  proof (cases "Bootstrap env d")
    case e: (Some e)
    with Some show ?thesis using bootfail by (simp add: afterHost_def emit_def)
  next
    case None
    show ?thesis
    proof (cases "NewACL env h (ACL cfg)")
      case (Inl e)
      with Some None show ?thesis using aclfail by (simp add: afterHost_def emit_def)
    next
      case (Inr a)
      with Some None show ?thesis using acl by (simp add: afterHost_def emit_emit)
    qed
  qed
qed

lemma startRelay_steps:
  "steps (snd (startRelay env cfg h a)) = (if Enabled (RelayV2 cfg) then [StepRelay] else [])"
  by (simp add: startRelay_def split: option.splits)

lemma startRelay_enabled:
  "Enabled (RelayV2 cfg) \<Longrightarrow>
     CallRelayNew h (Resources (RelayV2 cfg)) a \<in> set (snd (startRelay env cfg h a))"
  by (simp add: startRelay_def)

lemma main_after_host:
  assumes "ev \<in> set (snd (main env ar))"
    and "(\<exists>d. ev = CallBootstrap d) \<or> (\<exists>h c. ev = CallNewACL h c) \<or> (\<exists>h r a. ev = CallRelayNew h r a)"
  obtains cfg privk str rm f cm opts called h where "LoadConfig env (cfgPath ar) = Inr cfg"
    and "LoadIdentity env (idPath ar) = Inr privk"
    and "NewResourceManager env str = Inr rm"
    and "addrsFactory env cfg = Inr f"
    and "NewConnManager env (ConnMgrLo (ConnMgr cfg)) (ConnMgrHi (ConnMgr cfg))
           (ConnMgrGrace (ConnMgr cfg)) = Inr cm"
    and "opts = hostOpts env (baseOpts cfg privk rm @ fst (loadPSK env (pskPath ar)) @ [AddrsFactory f]) cm"
    and "libp2p_New env opts = (called, Inr h)"
    and "main env ar =
           emit (startupPrefix env ar cfg str opts) (afterHost env cfg h (kaddhtAfter env called))"
    and "ev \<in> set (snd (afterHost env cfg h (kaddhtAfter env called)))"
proof (cases env ar rule: main_cases)
  case early
  with assms show ?thesis by (auto dest: step_of_call)
next
  case (mid cfg)
  with assms show ?thesis by (auto dest: step_of_call)
next
  case (host cfg privk str rm f cm opts)
  obtain called res where new: "libp2p_New env opts = (called, res)"
    by (cases "libp2p_New env opts")
  from assms host(7) new obtain h where h: "res = Inr h"
    and ev: "ev \<in> set (snd (afterHost env cfg h (kaddhtAfter env called)))"
    by (cases res) (auto dest!: startupPrefix_events loadPSK_events)
  from host new h ev that show ?thesis by simp
qed

lemmas env_defs = sample_defs badKeyEnv_def noSeedsEnv_def busyPortEnv_def badIdentityEnv_def
  badConfigEnv_def badHostEnv_def disabledEnv_def disabledConfig_def staticEnv_def staticConfig_def

lemma fmt_d_8888: "fmt_d 8888 = ''8888''"
  by (simp add: fmt_d_def nat_dec.simps digit_def)

lemma fmt_d_6060: "fmt_d 6060 = ''6060''"
  by (simp add: fmt_d_def nat_dec.simps digit_def)

subsection \<open>Failures that end the startup\<close>

text \<open>
  Claim C5. When \<open>LoadConfig\<close> fails, \<open>main\<close> panics with its error and has done nothing
  else. When \<open>LoadIdentity\<close> fails, \<open>main\<close> panics with its error and has done nothing
  but load the configuration and call \<open>LoadIdentity\<close>: no host is built, so no other
  identity is ever used. When \<open>libp2p.New\<close> fails, \<open>main\<close> panics with its error and that
  call is the last event of the run.
\<close>

theorem startup_failures_fatal:
  "(LoadConfig env (cfgPath ar) = Inl e \<longrightarrow>
      main env ar = (Panics e, [CallLoadConfig (cfgPath ar)])) \<and>
   (LoadConfig env (cfgPath ar) = Inr cfg \<and> LoadIdentity env (idPath ar) = Inl e \<longrightarrow>
      main env ar = (Panics e, [CallLoadConfig (cfgPath ar), CallLoadIdentity (idPath ar)])) \<and>
   (CallNew opts \<in> set (snd (main env ar)) \<and> snd (libp2p_New env opts) = Inl e \<longrightarrow>
      fst (main env ar) = Panics e \<and> last (snd (main env ar)) = CallNew opts)"
proof (intro conjI impI)
  assume "LoadConfig env (cfgPath ar) = Inl e"
  then show "main env ar = (Panics e, [CallLoadConfig (cfgPath ar)])"
    by (simp add: main_def emit_def)
next
  assume "LoadConfig env (cfgPath ar) = Inr cfg \<and> LoadIdentity env (idPath ar) = Inl e"
  then show "main env ar = (Panics e, [CallLoadConfig (cfgPath ar), CallLoadIdentity (idPath ar)])"
    by (simp add: main_def emit_def)
next
  assume a: "CallNew opts \<in> set (snd (main env ar)) \<and> snd (libp2p_New env opts) = Inl e"
  then obtain cfg' str where
    run: "main env ar =
           emit (startupPrefix env ar cfg' str opts)
             (case libp2p_New env opts of
                (called, Inl err) \<Rightarrow> (Panics err, [])
              | (called, Inr h) \<Rightarrow> afterHost env cfg' h (kaddhtAfter env called))"
    by (blast elim: main_host_call)
  from a obtain called where "libp2p_New env opts = (called, Inl e)"
    by (cases "libp2p_New env opts") auto
  with run have "main env ar = emit (startupPrefix env ar cfg' str opts) (Panics e, [])"
    by simp
  then show "fst (main env ar) = Panics e" and "last (snd (main env ar)) = CallNew opts"
    by simp_all
qed

theorem startup_failures_fatal_witness:
  "main badConfigEnv sampleArgs
     = (Panics (Error ''malformed configuration''), [CallLoadConfig ''config.json'']) \<and>
   main badIdentityEnv sampleArgs
     = (Panics (Error ''malformed key''),
        [CallLoadConfig ''config.json'', CallLoadIdentity ''identity'']) \<and>
   (\<exists>opts. CallNew opts \<in> set (snd (main badHostEnv sampleArgs)) \<and>
      snd (libp2p_New badHostEnv opts) = Inl (Error ''cannot listen'') \<and>
      fst (main badHostEnv sampleArgs) = Panics (Error ''cannot listen'') \<and>
      last (snd (main badHostEnv sampleArgs)) = CallNew opts)"
proof -
  have c: "LoadConfig badConfigEnv (cfgPath sampleArgs) = Inl (Error ''malformed configuration'')"
    by (simp add: env_defs)
  have i: "LoadConfig badIdentityEnv (cfgPath sampleArgs) = Inr sampleConfig \<and>
           LoadIdentity badIdentityEnv (idPath sampleArgs) = Inl (Error ''malformed key'')"
    by (simp add: env_defs)
  define opts where "opts =
    hostOpts badHostEnv (baseOpts sampleConfig (PrivKey 1) (RMgr 1)
       @ fst (loadPSK badHostEnv ''swarm.key'')
       @ [AddrsFactory (\<lambda>addrs. publicAddrs badHostEnv addrs [])]) (BasicConnMgr 1)"
  have h: "CallNew opts \<in> set (snd (main badHostEnv sampleArgs)) \<and>
           snd (libp2p_New badHostEnv opts) = Inl (Error ''cannot listen'')"
    by (simp add: opts_def main_def withIdentity_def withResources_def buildHost_def
        addrsFactory_def env_defs)
  from startup_failures_fatal [of badConfigEnv sampleArgs "Error ''malformed configuration''"] c
  have "main badConfigEnv sampleArgs
     = (Panics (Error ''malformed configuration''), [CallLoadConfig ''config.json''])"
    by (simp add: sampleArgs_def)
  moreover
  from startup_failures_fatal [of badIdentityEnv sampleArgs "Error ''malformed key''" sampleConfig] i
  have "main badIdentityEnv sampleArgs
     = (Panics (Error ''malformed key''),
        [CallLoadConfig ''config.json'', CallLoadIdentity ''identity''])"
    by (simp add: sampleArgs_def)
  moreover
  from startup_failures_fatal [of badHostEnv sampleArgs "Error ''cannot listen''" _ opts] h
  have "fst (main badHostEnv sampleArgs) = Panics (Error ''cannot listen'') \<and>
      last (snd (main badHostEnv sampleArgs)) = CallNew opts"
    by blast
  ultimately show ?thesis using h by blast
qed

subsection \<open>The swarm key\<close>

text \<open>
  Claim C1 does not hold as stated: \<open>LoadSwarmKey\<close> returns an error and no key, and
  \<open>main\<close> still builds the host and reaches \<open>select {}\<close>.
\<close>

theorem swarm_key_error_reaches_host:
  "LoadSwarmKey badKeyEnv (pskPath sampleArgs) = (None, [], Some (Error ''decode'')) \<and>
   StepHost \<in> set (steps (snd (main badKeyEnv sampleArgs))) \<and>
   fst (main badKeyEnv sampleArgs) = Blocks"
  by (simp add: main_defs env_defs)

text \<open>
  Claim C1, as the code has it. Once \<open>main\<close> has called \<open>LoadSwarmKey\<close>, and the address
  factory and the connection manager are built, \<open>main\<close> calls \<open>libp2p.New\<close> whatever
  \<open>LoadSwarmKey\<close> has returned: the options hold \<open>PrivateNetwork key\<close> exactly when
  \<open>key\<close> was returned, and an error is printed exactly when one was returned.
\<close>

theorem swarm_key_error_not_fatal:
  assumes "CallLoadSwarmKey path \<in> set (snd (main env ar))"
    and "LoadConfig env (cfgPath ar) = Inr cfg"
    and "addrsFactory env cfg = Inr f"
    and "NewConnManager env (ConnMgrLo (ConnMgr cfg)) (ConnMgrHi (ConnMgr cfg))
           (ConnMgrGrace (ConnMgr cfg)) = Inr cm"
  shows "(\<exists>opts. CallNew opts \<in> set (snd (main env ar)) \<and>
            (\<forall>key. PrivateNetwork key \<in> set opts \<longleftrightarrow> fst (LoadSwarmKey env path) = Some key)) \<and>
         (\<forall>e. Printf (MsgSwarmKeyError e) \<in> set (snd (main env ar)) \<longleftrightarrow>
                 snd (snd (LoadSwarmKey env path)) = Some e)"
proof (cases env ar rule: main_cases)
  case early
  with assms(1) show ?thesis by simp
next
  case (mid cfg')
  with assms(2-4) show ?thesis by auto
next
  case (host cfg' privk str rm f' cm' opts)
  let ?after = "case libp2p_New env opts of
                  (called, Inl err) \<Rightarrow> (Panics err, [])
                | (called, Inr h) \<Rightarrow> afterHost env cfg' h (kaddhtAfter env called)"
  have after: "(\<exists>m. ev = Printf m \<and> (\<forall>e. m \<noteq> MsgSwarmKeyError e)) \<or> (\<forall>m p. ev \<noteq> Printf m \<and> ev \<noteq> CallLoadSwarmKey p)"
    if "ev \<in> set (snd ?after)" for ev
    using that by (auto split: prod.splits sum.splits dest!: afterHost_events)
  from assms(1) host(7) have path: "path = pskPath ar"
    by (auto dest!: startupPrefix_events loadPSK_events after)
  have "CallNew opts \<in> set (snd (main env ar))"
    by (simp add: host(7) startupPrefix_def)
  moreover have "PrivateNetwork key \<in> set opts \<longleftrightarrow> fst (LoadSwarmKey env path) = Some key" for key
    by (auto simp: host(6) path hostOpts_def baseOpts_def loadPSK_def split: prod.splits option.splits)
  moreover have "Printf (MsgSwarmKeyError e) \<in> set (snd (main env ar)) \<longleftrightarrow>
                 snd (snd (LoadSwarmKey env path)) = Some e" for e
  proof
    assume "Printf (MsgSwarmKeyError e) \<in> set (snd (main env ar))"
    with host(7) show "snd (snd (LoadSwarmKey env path)) = Some e"
      by (auto simp: path dest!: startupPrefix_events loadPSK_events after)
  next
    assume "snd (snd (LoadSwarmKey env path)) = Some e"
    then have "Printf (MsgSwarmKeyError e) \<in> set (snd (loadPSK env (pskPath ar)))"
      by (auto simp: path loadPSK_def split: prod.splits)
    then show "Printf (MsgSwarmKeyError e) \<in> set (snd (main env ar))"
      by (simp add: host(7) startupPrefix_def)
  qed
  ultimately show ?thesis by blast
qed

theorem swarm_key_error_not_fatal_witness:
  "CallLoadSwarmKey ''swarm.key'' \<in> set (snd (main badKeyEnv sampleArgs)) \<and>
   LoadSwarmKey badKeyEnv ''swarm.key'' = (None, [], Some (Error ''decode'')) \<and>
   (\<exists>opts. CallNew opts \<in> set (snd (main badKeyEnv sampleArgs)) \<and>
      (\<forall>key. PrivateNetwork key \<notin> set opts)) \<and>
   Printf (MsgSwarmKeyError (Error ''decode'')) \<in> set (snd (main badKeyEnv sampleArgs))"
proof -
  have h1: "CallLoadSwarmKey ''swarm.key'' \<in> set (snd (main badKeyEnv sampleArgs))"
    by (simp add: main_defs env_defs)
  have h2: "LoadConfig badKeyEnv (cfgPath sampleArgs) = Inr sampleConfig"
    by (simp add: env_defs)
  have h3: "addrsFactory badKeyEnv sampleConfig = Inr (\<lambda>addrs. publicAddrs badKeyEnv addrs [])"
    by (simp add: addrsFactory_def sampleConfig_def)
  have h4: "NewConnManager badKeyEnv (ConnMgrLo (ConnMgr sampleConfig))
              (ConnMgrHi (ConnMgr sampleConfig)) (ConnMgrGrace (ConnMgr sampleConfig))
              = Inr (BasicConnMgr 1)"
    by (simp add: env_defs)
  have k: "LoadSwarmKey badKeyEnv ''swarm.key'' = (None, [], Some (Error ''decode''))"
    by (simp add: env_defs)
  from swarm_key_error_not_fatal [OF h1 h2 h3 h4] k h1 show ?thesis
    by simp
qed

subsection \<open>Bootstrap\<close>

text \<open>
  Claim C2 does not hold as stated: \<open>Bootstrap\<close> returns an error, and \<open>main\<close> panics with
  it; the ACL and the relay are never constructed.
\<close>

theorem bootstrap_error_terminates:
  "Bootstrap noSeedsEnv (IpfsDHT 1) = Some (Error ''no seed reachable'') \<and>
   fst (main noSeedsEnv sampleArgs) = Panics (Error ''no seed reachable'') \<and>
   steps (snd (main noSeedsEnv sampleArgs))
     = [StepIdentity, StepResourceManager, StepConnManager, StepHost, StepBootstrap] \<and>
   processDies noSeedsEnv sampleArgs"
  by (simp add: main_defs env_defs processDies_def)

text \<open>
  Claim C2, as the code has it. When \<open>main\<close> calls \<open>Bootstrap\<close> and it returns an error,
  \<open>main\<close> panics with that error, the call is the last event of the run (neither the ACL
  nor the relay is constructed), and the process ends.
\<close>

theorem bootstrap_error_panics:
  "CallBootstrap d \<in> set (snd (main env ar)) \<and> Bootstrap env d = Some e \<longrightarrow>
     fst (main env ar) = Panics e \<and> last (snd (main env ar)) = CallBootstrap d \<and>
     steps (snd (main env ar)) =
       [StepIdentity, StepResourceManager, StepConnManager, StepHost, StepBootstrap] \<and>
     processDies env ar"
proof (intro impI)
  assume a: "CallBootstrap d \<in> set (snd (main env ar)) \<and> Bootstrap env d = Some e"
  then have "StepBootstrap \<in> set (steps (snd (main env ar)))"
    by (blast dest: step_of_call)
  then obtain cfg str opts where
    run: "main env ar =
           emit (startupPrefix env ar cfg str opts)
             (case libp2p_New env opts of
                (called, Inl err) \<Rightarrow> (Panics err, [])
              | (called, Inr h) \<Rightarrow> afterHost env cfg h (kaddhtAfter env called))"
    by (cases env ar rule: main_cases) auto
  obtain called res where new: "libp2p_New env opts = (called, res)"
    by (cases "libp2p_New env opts")
  from a run new obtain h where h: "res = Inr h"
    and k: "kaddhtAfter env called = Some d"
    by (cases res) (auto dest!: startupPrefix_events afterHost_events loadPSK_events)
  from k a have "afterHost env cfg h (kaddhtAfter env called) = (Panics e, [CallBootstrap d])"
    by (simp add: afterHost_def emit_def)
  with run new h have m: "main env ar = emit (startupPrefix env ar cfg str opts) (Panics e, [CallBootstrap d])"
    by simp
  then show "fst (main env ar) = Panics e \<and> last (snd (main env ar)) = CallBootstrap d \<and>
     steps (snd (main env ar)) =
       [StepIdentity, StepResourceManager, StepConnManager, StepHost, StepBootstrap] \<and>
     processDies env ar"
    by (simp add: processDies_def)
qed

theorem bootstrap_error_panics_witness:
  "CallBootstrap (IpfsDHT 1) \<in> set (snd (main noSeedsEnv sampleArgs)) \<and>
   Bootstrap noSeedsEnv (IpfsDHT 1) = Some (Error ''no seed reachable'') \<and>
   fst (main noSeedsEnv sampleArgs) = Panics (Error ''no seed reachable'') \<and>
   last (snd (main noSeedsEnv sampleArgs)) = CallBootstrap (IpfsDHT 1) \<and>
   processDies noSeedsEnv sampleArgs"
proof -
  have h: "CallBootstrap (IpfsDHT 1) \<in> set (snd (main noSeedsEnv sampleArgs)) \<and>
           Bootstrap noSeedsEnv (IpfsDHT 1) = Some (Error ''no seed reachable'')"
    by (simp add: main_defs env_defs)
  with bootstrap_error_panics [of "IpfsDHT 1" noSeedsEnv sampleArgs "Error ''no seed reachable''"]
  show ?thesis by blast
qed

subsection \<open>The relay service\<close>

text \<open>
  Claim C6. When \<open>main\<close> calls \<open>relayv2.New\<close>, the switch \<open>RelayV2.Enabled\<close> is on, and the
  arguments are the host that \<open>libp2p.New\<close> returned, the configured \<open>RelayV2.Resources\<close>
  and the ACL that \<open>NewACL\<close> returned for that host. Once \<open>main\<close> has constructed the
  ACL, it calls \<open>relayv2.New\<close> with these arguments if and only if the switch is on.
\<close>

theorem relay_started_iff_enabled:
  "(CallRelayNew h r a \<in> set (snd (main env ar)) \<longrightarrow>
      (\<exists>cfg opts called. LoadConfig env (cfgPath ar) = Inr cfg \<and> Enabled (RelayV2 cfg) \<and>
          r = Resources (RelayV2 cfg) \<and> CallNew opts \<in> set (snd (main env ar)) \<and>
          libp2p_New env opts = (called, Inr h) \<and> NewACL env h (ACL cfg) = Inr a)) \<and>
   (LoadConfig env (cfgPath ar) = Inr cfg \<and> CallNewACL h c \<in> set (snd (main env ar)) \<and>
    NewACL env h c = Inr a \<longrightarrow>
      (CallRelayNew h (Resources (RelayV2 cfg)) a \<in> set (snd (main env ar))) = Enabled (RelayV2 cfg))"
proof -
  have started: "\<exists>cfg opts called. LoadConfig env (cfgPath ar) = Inr cfg \<and> Enabled (RelayV2 cfg) \<and>
          r = Resources (RelayV2 cfg) \<and> CallNew opts \<in> set (snd (main env ar)) \<and>
          libp2p_New env opts = (called, Inr h) \<and> NewACL env h (ACL cfg) = Inr a"
    if "CallRelayNew h r a \<in> set (snd (main env ar))" for h r a
  proof -
    from that obtain cfg str opts called h' where cfg: "LoadConfig env (cfgPath ar) = Inr cfg"
      and new: "libp2p_New env opts = (called, Inr h')"
      and run: "main env ar =
           emit (startupPrefix env ar cfg str opts) (afterHost env cfg h' (kaddhtAfter env called))"
      and ev: "CallRelayNew h r a \<in> set (snd (afterHost env cfg h' (kaddhtAfter env called)))"
      by (rule main_after_host) blast
    from afterHost_events [OF ev] have "h = h'" "r = Resources (RelayV2 cfg)"
      "Enabled (RelayV2 cfg)" "NewACL env h' (ACL cfg) = Inr a"
      by auto
    moreover from run have "CallNew opts \<in> set (snd (main env ar))"
      by (simp add: startupPrefix_def)
    ultimately show ?thesis using cfg new by blast
  qed
  have gate: "(CallRelayNew h (Resources (RelayV2 cfg)) a \<in> set (snd (main env ar))) = Enabled (RelayV2 cfg)"
    if cfg: "LoadConfig env (cfgPath ar) = Inr cfg" and ev: "CallNewACL h c \<in> set (snd (main env ar))"
      and a: "NewACL env h c = Inr a"
  proof
    assume "CallRelayNew h (Resources (RelayV2 cfg)) a \<in> set (snd (main env ar))"
    from started [OF this] cfg show "Enabled (RelayV2 cfg)" by auto
  next
    assume en: "Enabled (RelayV2 cfg)"
    from ev obtain cfg' str opts called h' where cfg': "LoadConfig env (cfgPath ar) = Inr cfg'"
      and run: "main env ar =
           emit (startupPrefix env ar cfg' str opts) (afterHost env cfg' h' (kaddhtAfter env called))"
      and ev': "CallNewACL h c \<in> set (snd (afterHost env cfg' h' (kaddhtAfter env called)))"
      by (rule main_after_host) blast
    from cfg cfg' have [simp]: "cfg' = cfg" by simp
    from afterHost_events [OF ev'] obtain d where "h' = h" "c = ACL cfg"
      "kaddhtAfter env called = Some d" "Bootstrap env d = None"
      by auto
    with a have "afterHost env cfg h' (kaddhtAfter env called) =
             emit (CallBootstrap d # banner env h
                @ [Go (ListenPprof (PprofPort (Daemon cfg))), Sleep, CallNewACL h (ACL cfg)])
               (startRelay env cfg h a)"
      by (simp add: afterHost_def emit_emit)
    with run en show "CallRelayNew h (Resources (RelayV2 cfg)) a \<in> set (snd (main env ar))"
      by (simp add: startRelay_enabled)
  qed
  from started gate show ?thesis by blast
qed

theorem relay_started_iff_enabled_witness:
  "CallRelayNew (Host 1) (RelayResources 0) (ACLFilter 1) \<in> set (snd (main sampleEnv sampleArgs)) \<and>
   Enabled (RelayV2 sampleConfig) \<and>
   NewACL sampleEnv (Host 1) (ACL sampleConfig) = Inr (ACLFilter 1) \<and>
   CallNewACL (Host 1) (ACLConfig 0) \<in> set (snd (main disabledEnv sampleArgs)) \<and>
   \<not> Enabled (RelayV2 disabledConfig) \<and>
   CallRelayNew (Host 1) (RelayResources 0) (ACLFilter 1) \<notin> set (snd (main disabledEnv sampleArgs))"
proof -
  have on: "CallRelayNew (Host 1) (RelayResources 0) (ACLFilter 1)
              \<in> set (snd (main sampleEnv sampleArgs))"
    by (simp add: main_defs env_defs)
  have cfg: "LoadConfig sampleEnv (cfgPath sampleArgs) = Inr sampleConfig"
    by (simp add: env_defs)
  from relay_started_iff_enabled [of "Host 1" "RelayResources 0" "ACLFilter 1" sampleEnv sampleArgs] on cfg
  have "Enabled (RelayV2 sampleConfig) \<and> NewACL sampleEnv (Host 1) (ACL sampleConfig) = Inr (ACLFilter 1)"
    by auto
  moreover
  have off: "LoadConfig disabledEnv (cfgPath sampleArgs) = Inr disabledConfig \<and>
             CallNewACL (Host 1) (ACLConfig 0) \<in> set (snd (main disabledEnv sampleArgs)) \<and>
             NewACL disabledEnv (Host 1) (ACLConfig 0) = Inr (ACLFilter 1)"
    by (simp add: main_defs env_defs)
  have no: "\<not> Enabled (RelayV2 disabledConfig)" "Resources (RelayV2 disabledConfig) = RelayResources 0"
    by (simp_all add: env_defs)
  from relay_started_iff_enabled [where env=disabledEnv and ar=sampleArgs and cfg=disabledConfig
      and h="Host 1" and c="ACLConfig 0" and a="ACLFilter 1"]
    off no
  have "CallRelayNew (Host 1) (RelayResources 0) (ACLFilter 1) \<notin> set (snd (main disabledEnv sampleArgs))"
    by simp
  ultimately show ?thesis using on off no by blast
qed

subsection \<open>The order of the startup\<close>

text \<open>
  Claim C8. In a run that reaches \<open>select {}\<close>, the steps are, in this order: the identity
  is loaded, the resource manager is constructed, the connection manager is
  constructed, the host is constructed (with the identity, the resource manager, the
  address factory, the connection manager and the routing factory among its options),
  the DHT that the routing factory created is bootstrapped, the ACL is constructed for
  the host, and, when the switch is on, the relay is started on the host with the
  configured resources and that ACL. (Loading the configuration comes before all of
  them.)
\<close>

theorem startup_order:
  assumes "fst (main env ar) = Blocks"
  shows "\<exists>cfg privk str rm f cm opts called h d a.
           LoadConfig env (cfgPath ar) = Inr cfg \<and> LoadIdentity env (idPath ar) = Inr privk \<and>
           NewResourceManager env str = Inr rm \<and> addrsFactory env cfg = Inr f \<and>
           NewConnManager env (ConnMgrLo (ConnMgr cfg)) (ConnMgrHi (ConnMgr cfg))
             (ConnMgrGrace (ConnMgr cfg)) = Inr cm \<and>
           libp2p_New env opts = (called, Inr h) \<and> kaddhtAfter env called = Some d \<and>
           NewACL env h (ACL cfg) = Inr a \<and>
           {Identity privk, ResourceManager rm, AddrsFactory f, ConnectionManager cm,
            Routing (newDHT env)} \<subseteq> set opts \<and>
           steps (snd (main env ar)) =
             [StepIdentity, StepResourceManager, StepConnManager, StepHost, StepBootstrap, StepACL]
             @ (if Enabled (RelayV2 cfg) then [StepRelay] else []) \<and>
           {CallLoadIdentity (idPath ar), CallNewResourceManager str,
            CallNewConnManager (ConnMgrLo (ConnMgr cfg)) (ConnMgrHi (ConnMgr cfg))
              (ConnMgrGrace (ConnMgr cfg)),
            CallNew opts, CallBootstrap d, CallNewACL h (ACL cfg)} \<subseteq> set (snd (main env ar)) \<and>
           (Enabled (RelayV2 cfg) \<longrightarrow>
              CallRelayNew h (Resources (RelayV2 cfg)) a \<in> set (snd (main env ar)))"
proof (cases env ar rule: main_cases)
  case early
  with assms show ?thesis by simp
next
  case (mid cfg)
  with assms show ?thesis by simp
next
  case (host cfg privk str rm f cm opts)
  obtain called res where new: "libp2p_New env opts = (called, res)"
    by (cases "libp2p_New env opts")
  with assms host(7) obtain h where h: "res = Inr h"
    by (cases res) auto
  with assms host(7) new have after: "fst (afterHost env cfg h (kaddhtAfter env called)) = Blocks"
    by simp
  then obtain d a where d: "kaddhtAfter env called = Some d"
    and a: "NewACL env h (ACL cfg) = Inr a"
    and run: "afterHost env cfg h (kaddhtAfter env called) =
             emit (CallBootstrap d # banner env h
                @ [Go (ListenPprof (PprofPort (Daemon cfg))), Sleep, CallNewACL h (ACL cfg)])
               (startRelay env cfg h a)"
    by (cases env cfg h "kaddhtAfter env called" rule: afterHost_cases) auto
  from after run have relay: "fst (startRelay env cfg h a) = Blocks"
    by simp
  from host(7) new h run
  have tr: "snd (main env ar) =
          startupPrefix env ar cfg str opts
          @ (CallBootstrap d # banner env h
                @ [Go (ListenPprof (PprofPort (Daemon cfg))), Sleep, CallNewACL h (ACL cfg)])
          @ snd (startRelay env cfg h a)"
    by simp
  have "{Identity privk, ResourceManager rm, AddrsFactory f, ConnectionManager cm,
            Routing (newDHT env)} \<subseteq> set opts"
    by (simp add: host(6) hostOpts_def baseOpts_def)
  moreover have "steps (snd (main env ar)) =
             [StepIdentity, StepResourceManager, StepConnManager, StepHost, StepBootstrap, StepACL]
             @ (if Enabled (RelayV2 cfg) then [StepRelay] else [])"
    by (simp add: tr startRelay_steps)
  moreover have "{CallLoadIdentity (idPath ar), CallNewResourceManager str,
            CallNewConnManager (ConnMgrLo (ConnMgr cfg)) (ConnMgrHi (ConnMgr cfg))
              (ConnMgrGrace (ConnMgr cfg)),
            CallNew opts, CallBootstrap d, CallNewACL h (ACL cfg)} \<subseteq> set (snd (main env ar))"
    by (simp add: tr startupPrefix_def)
  moreover have "Enabled (RelayV2 cfg) \<longrightarrow>
              CallRelayNew h (Resources (RelayV2 cfg)) a \<in> set (snd (main env ar))"
    by (simp add: tr startRelay_enabled)
  ultimately show ?thesis
    using host(1-5) new h d a by blast
qed

theorem startup_order_witness:
  "fst (main sampleEnv sampleArgs) = Blocks \<and>
   steps (snd (main sampleEnv sampleArgs))
     = [StepIdentity, StepResourceManager, StepConnManager, StepHost, StepBootstrap, StepACL,
        StepRelay]"
proof -
  have b: "fst (main sampleEnv sampleArgs) = Blocks"
    by (simp add: main_defs env_defs)
  from startup_order [OF b] obtain cfg where "LoadConfig sampleEnv (cfgPath sampleArgs) = Inr cfg"
    and s: "steps (snd (main sampleEnv sampleArgs)) =
             [StepIdentity, StepResourceManager, StepConnManager, StepHost, StepBootstrap, StepACL]
             @ (if Enabled (RelayV2 cfg) then [StepRelay] else [])"
    by blast
  then have "cfg = sampleConfig" by (simp add: env_defs)
  with s b show ?thesis by (simp add: sampleConfig_def)
qed

subsection \<open>The metrics and pprof servers\<close>

text \<open>
  Claim C7 does not hold as stated: the metrics server cannot bind, its goroutine calls
  \<open>log.Fatal\<close>, and the process ends although \<open>main\<close> has reached \<open>select {}\<close>.
\<close>

theorem metrics_bind_failure_terminates:
  "fst (main busyPortEnv sampleArgs) = Blocks \<and>
   Go (PromServer 8888) \<in> set (snd (main busyPortEnv sampleArgs)) \<and>
   ListenAndServe busyPortEnv '':8888'' = Returned (Some (Error ''address already in use'')) \<and>
   goroutineRun busyPortEnv (PromServer 8888)
     = (LogFatal (Some (Error ''address already in use'')),
        [CallHttpHandle ''/debug/metrics/prometheus'', CallListenAndServe '':8888'']) \<and>
   processDies busyPortEnv sampleArgs"
  by (simp add: main_defs env_defs processDies_def promServer_def fmt_d_8888 emit_def)

text \<open>
  Claim C7, as the code has it. When \<open>http.ListenAndServe\<close> returns in the metrics
  goroutine, the goroutine calls \<open>log.Fatal\<close> with what it returned. When it returns an
  error other than \<open>http.ErrServerClosed\<close> in \<open>listenPprof\<close> (port not \<open>-1\<close>),
  \<open>listenPprof\<close> prints the error and panics. Either ends the process, once \<open>main\<close> has
  started the goroutine.
\<close>

theorem observability_failure_fatal:
  "(ListenAndServe env (CHR '':'' # fmt_d port) = Returned r \<longrightarrow>
      fst (promServer env port) = LogFatal r \<and> killsProcess (fst (promServer env port))) \<and>
   (p \<noteq> - 1 \<and> ListenAndServe env (''localhost:'' @ fmt_d p) = Returned (Some e) \<and>
    e \<noteq> ErrServerClosed \<longrightarrow>
      fst (listenPprof env p) = Panics e \<and> killsProcess (fst (listenPprof env p)) \<and>
      last (snd (listenPprof env p)) = Printf (MsgPprofError (''localhost:'' @ fmt_d p) e)) \<and>
   (Go g \<in> set (snd (main env ar)) \<and> killsProcess (fst (goroutineRun env g)) \<longrightarrow>
      processDies env ar)"
proof (intro conjI impI)
  assume "Go g \<in> set (snd (main env ar)) \<and> killsProcess (fst (goroutineRun env g))"
  then show "processDies env ar"
    by (auto simp: processDies_def list_ex_iff dest: spawned_Go)
qed (simp_all add: promServer_def listenPprof_def)

theorem observability_failure_fatal_witness:
  "ListenAndServe busyPortEnv '':8888'' = Returned (Some (Error ''address already in use'')) \<and>
   fst (promServer busyPortEnv 8888) = LogFatal (Some (Error ''address already in use'')) \<and>
   ListenAndServe busyPortEnv ''localhost:6060'' = Returned (Some (Error ''address already in use'')) \<and>
   fst (listenPprof busyPortEnv 6060) = Panics (Error ''address already in use'') \<and>
   Go (ListenPprof 6060) \<in> set (snd (main busyPortEnv sampleArgs)) \<and>
   processDies busyPortEnv sampleArgs"
proof -
  have l: "ListenAndServe busyPortEnv addr = Returned (Some (Error ''address already in use''))"
    for addr by (simp add: env_defs)
  have g: "Go (ListenPprof 6060) \<in> set (snd (main busyPortEnv sampleArgs))"
    by (simp add: main_defs env_defs)
  from observability_failure_fatal [of busyPortEnv 8888 "Some (Error ''address already in use'')"
      6060 "Error ''address already in use''" "ListenPprof 6060" sampleArgs] l g
  show ?thesis by (simp add: fmt_d_8888 fmt_d_6060)
qed

end
